theory Spec2Isabelle
  imports Complex_Main
begin

section \<open>Python floats: IEEE 754 binary64 with round-to-nearest, ties-to-even\<close>

text \<open>
  The prices of \<^verbatim>\<open>main.py\<close> are Python floats.  A float is modelled by its exact
  value: a finite double is the rational number it denotes, and the three special
  values are constructors of their own.  The sign of a zero is not tracked
  (Python's \<^verbatim>\<open>==\<close> identifies \<^verbatim>\<open>0.0\<close> and \<^verbatim>\<open>-0.0\<close> too).
\<close>

datatype double = Fin rat | PInf | NInf | NaN

text \<open>Rounding to the nearest integer, a tie going to the even neighbour.\<close>

definition round_half_even :: "rat \<Rightarrow> int" where
  "round_half_even x =
     (let f = \<lfloor>x\<rfloor>; r = x - of_int f
      in if r < 1 / 2 then f
         else if 1 / 2 < r then f + 1
         else if even f then f else f + 1)"

text \<open>\<^verbatim>\<open>int.bit_length\<close>: the number of binary digits of a natural number.\<close>

fun bit_length :: "nat \<Rightarrow> nat" where
  "bit_length n = (if n = 0 then 0 else Suc (bit_length (n div 2)))"

declare bit_length.simps [simp del]

text \<open>The binary exponent of a positive rational: \<open>2 powi ilog2 x \<le> x < 2 powi (ilog2 x + 1)\<close>.\<close>

definition ilog2 :: "rat \<Rightarrow> int" where
  "ilog2 x =
     (if 1 \<le> x then int (bit_length (nat \<lfloor>x\<rfloor>)) - 1
      else - int (bit_length (nat (\<lceil>1 / x\<rceil> - 1))))"

text \<open>
  The exponent of the unit in the last place around \<open>x\<close>: 53 significant bits, and the
  fixed spacing \<open>2 powi (-1074)\<close> below the smallest normal number \<open>2 powi (-1022)\<close>.
\<close>

definition ulp_exp :: "rat \<Rightarrow> int" where
  "ulp_exp x = max (ilog2 \<bar>x\<bar>) (- 1022) - 52"

definition nearest :: "rat \<Rightarrow> rat" where
  "nearest x =
     (if x = 0 then 0
      else of_int (round_half_even (x / 2 powi ulp_exp x)) * 2 powi ulp_exp x)"

text \<open>
  The result of an operation whose exact value is \<open>x\<close>.  A rounded value whose binary
  exponent reaches 1024, that is whose magnitude reaches \<open>2 powi 1024\<close>, overflows to
  the infinity of its sign.
\<close>

definition rd :: "rat \<Rightarrow> double" where
  "rd x =
     (let y = nearest x
      in if y \<noteq> 0 \<and> 1024 \<le> ilog2 \<bar>y\<bar> then (if 0 < y then PInf else NInf)
         else Fin y)"

fun fadd :: "double \<Rightarrow> double \<Rightarrow> double" where
  "fadd NaN _ = NaN"
| "fadd _ NaN = NaN"
| "fadd PInf NInf = NaN"
| "fadd NInf PInf = NaN"
| "fadd PInf _ = PInf"
| "fadd _ PInf = PInf"
| "fadd NInf _ = NInf"
| "fadd _ NInf = NInf"
| "fadd (Fin a) (Fin b) = rd (a + b)"

fun fmul :: "double \<Rightarrow> double \<Rightarrow> double" where
  "fmul NaN _ = NaN"
| "fmul _ NaN = NaN"
| "fmul (Fin a) (Fin b) = rd (a * b)"
| "fmul (Fin a) PInf = (if a = 0 then NaN else if 0 < a then PInf else NInf)"
| "fmul (Fin a) NInf = (if a = 0 then NaN else if 0 < a then NInf else PInf)"
| "fmul PInf (Fin b) = (if b = 0 then NaN else if 0 < b then PInf else NInf)"
| "fmul NInf (Fin b) = (if b = 0 then NaN else if 0 < b then NInf else PInf)"
| "fmul PInf PInf = PInf"
| "fmul PInf NInf = NInf"
| "fmul NInf PInf = NInf"
| "fmul NInf NInf = PInf"

text \<open>Python's \<^verbatim>\<open><=\<close> on floats: every comparison with a NaN is false.\<close>

fun fle :: "double \<Rightarrow> double \<Rightarrow> bool" where
  "fle NaN _ = False"
| "fle _ NaN = False"
| "fle NInf _ = True"
| "fle _ PInf = True"
| "fle (Fin a) (Fin b) = (a \<le> b)"
| "fle (Fin a) NInf = False"
| "fle PInf _ = False"

text \<open>
  \<^verbatim>\<open>round(x, ndigits)\<close> on a float, for \<open>0 \<le> ndigits\<close>: CPython writes the exact value of
  \<open>x\<close> as a decimal with \<open>ndigits\<close> digits after the point, correctly rounded with ties
  to even, and reads that decimal back as the nearest double.  Infinities and NaN
  round to themselves.
\<close>

fun py_round :: "double \<Rightarrow> nat \<Rightarrow> double" where
  "py_round (Fin x) ndigits = rd (of_int (round_half_even (x * 10 ^ ndigits)) / 10 ^ ndigits)"
| "py_round d ndigits = d"

definition fge :: "double \<Rightarrow> double \<Rightarrow> bool" where
  "fge a b = fle b a"

text \<open>\<^verbatim>\<open>math.isfinite\<close>, and the floats that are neither negative nor NaN.\<close>

fun isfinite :: "double \<Rightarrow> bool" where
  "isfinite (Fin x) = True"
| "isfinite d = False"

fun nonneg :: "double \<Rightarrow> bool" where
  "nonneg (Fin x) = (0 \<le> x)"
| "nonneg PInf = True"
| "nonneg d = False"

section \<open>Errors\<close>

text \<open>
  \<^verbatim>\<open>HTTPException(status_code, detail)\<close> is raised by the handlers themselves.
  \<open>OverflowError\<close> is Python's ``int too large to convert to float'', raised when an
  \<^verbatim>\<open>int\<close> operand of a float multiplication has no finite double.  \<open>ValidationError\<close> is
  pydantic's, raised when a model is built from values that break its field constraints;
  \<open>RequestValidationError\<close> is the rejection of a request body before the handler runs.
\<close>

datatype detail = Database_not_configured | Service_not_found | Minimum_quantity_is int

datatype error =
    HTTPException nat detail
  | OverflowError
  | ValidationError
  | RequestValidationError

definition int_to_float :: "int \<Rightarrow> error + double" where
  "int_to_float n = (case rd (of_int n) of Fin y \<Rightarrow> Inr (Fin y) | _ \<Rightarrow> Inl OverflowError)"

section \<open>The schemas (schemas.py)\<close>

record Service =
  key :: string
  name :: string
  description :: "string option"
  base_price :: double
  categories :: "string list"
  color_price_per_color :: double
  print_area_multiplier :: double
  minimum_quantity :: int

text \<open>
  Building a \<open>Service\<close> from a stored document checks the constraints of its fields:
  \<^verbatim>\<open>base_price ge=0\<close>, \<^verbatim>\<open>color_price_per_color ge=0\<close>, \<^verbatim>\<open>print_area_multiplier ge=0.1\<close>,
  \<^verbatim>\<open>minimum_quantity ge=1\<close>.
\<close>

definition Service_validate :: "Service \<Rightarrow> error + Service" where
  "Service_validate d =
     (if fge (base_price d) (Fin 0)
         \<and> fge (color_price_per_color d) (Fin 0)
         \<and> fge (print_area_multiplier d) (rd (1 / 10))
         \<and> 1 \<le> minimum_quantity d
      then Inr d else Inl ValidationError)"

record QuoteRequest =
  customer_name :: string
  customer_email :: string
  service_key :: string
  quantity :: int
  colors :: int
  print_area :: string
  notes' :: "string option"
  estimated_total :: "double option"



section \<open>The document store\<close>

text \<open>
  The module-level \<^verbatim>\<open>db\<close> is \<open>None\<close> when no database is configured, and otherwise
  holds the collections \<^verbatim>\<open>service\<close> and \<^verbatim>\<open>quoterequest\<close>.
\<close>

record database =
  service :: "Service list"
  quoterequest :: "QuoteRequest list"

text \<open>\<^verbatim>\<open>db["service"].find_one({"key": k})\<close>: the first document with that key, if any.\<close>

definition find_one :: "Service list \<Rightarrow> string \<Rightarrow> Service option" where
  "find_one coll k = find (\<lambda>d. key d = k) coll"

text \<open>
  Modelled from the spec: \<^verbatim>\<open>create_document\<close> of \<^verbatim>\<open>database.py\<close>, which is imported by
  \<^verbatim>\<open>main.py\<close> and is not among the source files.  The spec gives it as
  \<^verbatim>\<open>insert(collection_name, document) -> generated_id\<close>: the document is appended to the
  collection and a fresh identifier is returned, here the position of the new document.
  \<open>create_quote\<close> below does not depend on it: it takes the insertion as a parameter, and
  this one serves in the examples.
\<close>

definition insert_document :: "database \<Rightarrow> QuoteRequest \<Rightarrow> nat \<times> database" where
  "insert_document d q = (length (quoterequest d), d\<lparr>quoterequest := quoterequest d @ [q]\<rparr>)"

section \<open>Pricing (main.py, calculate_price)\<close>

record PriceRequest =
  service_key :: string
  quantity :: int
  colors :: int
  print_area :: string

record Breakdown =
  base :: double
  colors :: int
  color_add_per_unit :: double
  area_multiplier :: double
  volume_discounts :: bool

record PriceResponse =
  unit_price :: double
  total_price :: double
  breakdown :: Breakdown

definition area_multiplier_map :: "Service \<Rightarrow> (string \<times> double) list" where
  "area_multiplier_map svc =
     [(''small'', rd (9 / 10)), (''medium'', rd 1), (''large'', print_area_multiplier svc)]"

definition area_mult :: "Service \<Rightarrow> PriceRequest \<Rightarrow> double" where
  "area_mult svc req =
     (case map_of (area_multiplier_map svc) (PriceRequest.print_area req) of
        None \<Rightarrow> rd 1
      | Some m \<Rightarrow> m)"

definition color_add :: "Service \<Rightarrow> PriceRequest \<Rightarrow> error + double" where
  "color_add svc req =
     (case int_to_float (max 0 (PriceRequest.colors req - 1)) of
        Inl e \<Rightarrow> Inl e
      | Inr n \<Rightarrow> Inr (fmul n (color_price_per_color svc)))"

text \<open>Lines 126 to 131: the unit price before the volume discount.\<close>

definition unit_price_before_discount :: "Service \<Rightarrow> PriceRequest \<Rightarrow> error + double" where
  "unit_price_before_discount svc req =
     (case color_add svc req of
        Inl e \<Rightarrow> Inl e
      | Inr ca \<Rightarrow> Inr (py_round (fmul (fadd (base_price svc) ca) (area_mult svc req)) 2))"

text \<open>Lines 134 to 139: the \<^verbatim>\<open>if\<close>/\<^verbatim>\<open>elif\<close> chain on the quantity.\<close>

definition volume_discount :: "int \<Rightarrow> double \<Rightarrow> double" where
  "volume_discount qty unit_price0 =
     (if 100 \<le> qty then fmul unit_price0 (rd (75 / 100))
      else if 50 \<le> qty then fmul unit_price0 (rd (82 / 100))
      else if 20 \<le> qty then fmul unit_price0 (rd (9 / 10))
      else unit_price0)"

definition calculate_price :: "database option \<Rightarrow> PriceRequest \<Rightarrow> error + PriceResponse" where
  "calculate_price db req =
     (case db of
        None \<Rightarrow> Inl (HTTPException 500 Database_not_configured)
      | Some d \<Rightarrow>
          (case find_one (service d) (PriceRequest.service_key req) of
             None \<Rightarrow> Inl (HTTPException 404 Service_not_found)
           | Some svc_doc \<Rightarrow>
               (case Service_validate svc_doc of
                  Inl e \<Rightarrow> Inl e
                | Inr svc \<Rightarrow>
                    (case unit_price_before_discount svc req of
                       Inl e \<Rightarrow> Inl e
                     | Inr p \<Rightarrow>
                         let u = py_round (volume_discount (PriceRequest.quantity req) p) 2
                         in if PriceRequest.quantity req < minimum_quantity svc
                            then Inl (HTTPException 400 (Minimum_quantity_is (minimum_quantity svc)))
                            else
                              (case int_to_float (PriceRequest.quantity req) of
                                 Inl e \<Rightarrow> Inl e
                               | Inr qf \<Rightarrow>
                                   Inr \<lparr>unit_price = u,
                                        total_price = py_round (fmul u qf) 2,
                                        breakdown =
                                          \<lparr>base = base_price svc,
                                           colors = PriceRequest.colors req,
                                           color_add_per_unit = color_price_per_color svc,
                                           area_multiplier = area_mult svc req,
                                           volume_discounts = True\<rparr>\<rparr>)))))"

section \<open>Quotes (main.py, create_quote)\<close>

text \<open>
  \<open>create_quote\<close> returns the response (the new identifier and the estimated total) or
  the error, together with the database after the call.  Its first argument is
  \<^verbatim>\<open>create_document("quoterequest", _)\<close>, imported from \<^verbatim>\<open>database.py\<close>: a function from the
  database and the document to the new identifier and the database after the insertion.
\<close>

definition price_request_of :: "QuoteRequest \<Rightarrow> PriceRequest" where
  "price_request_of q =
     \<lparr>service_key = QuoteRequest.service_key q,
      quantity = QuoteRequest.quantity q,
      colors = QuoteRequest.colors q,
      print_area = QuoteRequest.print_area q\<rparr>"

definition create_quote ::
  "(database \<Rightarrow> QuoteRequest \<Rightarrow> 'i \<times> database) \<Rightarrow> database option \<Rightarrow> QuoteRequest
     \<Rightarrow> (error + 'i \<times> double) \<times> database option" where
  "create_quote create_document db q =
     (case db of
        None \<Rightarrow> (Inl (HTTPException 500 Database_not_configured), db)
      | Some d \<Rightarrow>
          (case calculate_price db (price_request_of q) of
             Inl e \<Rightarrow> (Inl e, db)
           | Inr price \<Rightarrow>
               let q' = q\<lparr>estimated_total := Some (total_price price)\<rparr>;
                   (doc_id, d') = create_document d q'
               in (Inr (doc_id, total_price price), Some d')))"


section \<open>The seeded catalog (main.py, seed_services) and example requests\<close>

text \<open>
  The three services that \<^verbatim>\<open>seed_services\<close> inserts into an empty catalog.  A float
  literal denotes the double nearest to the decimal written.
\<close>

definition tshirt :: Service where
  "tshirt =
     \<lparr>key = ''tshirt'', name = ''T-Shirt Printing'',
      description = Some ''DTG and screen printing for tees'',
      base_price = rd 6, categories = [''apparel'', ''tshirt''],
      color_price_per_color = rd (35 / 100), print_area_multiplier = rd 1,
      minimum_quantity = 1\<rparr>"

definition tote_bag :: Service where
  "tote_bag =
     \<lparr>key = ''tote_bag'', name = ''Tote Bag Printing'',
      description = Some ''Durable cotton tote prints'',
      base_price = rd 4, categories = [''bags'', ''tote''],
      color_price_per_color = rd (25 / 100), print_area_multiplier = rd (11 / 10),
      minimum_quantity = 1\<rparr>"

definition hoodie :: Service where
  "hoodie =
     \<lparr>key = ''hoodie'', name = ''Hoodie Printing'',
      description = Some ''Premium hoodies with vivid prints'',
      base_price = rd 12, categories = [''apparel'', ''hoodie''],
      color_price_per_color = rd (4 / 10), print_area_multiplier = rd (12 / 10),
      minimum_quantity = 1\<rparr>"

definition seeded :: database where
  "seeded = \<lparr>service = [tshirt, tote_bag, hoodie], quoterequest = []\<rparr>"

text \<open>A hundred t-shirts in three colours on a medium print area.\<close>

definition tshirt_100_3 :: PriceRequest where
  "tshirt_100_3 =
     \<lparr>service_key = ''tshirt'', quantity = 100, colors = 3, print_area = ''medium''\<rparr>"

text \<open>No t-shirt at all, in \<open>2 ^ 1024 + 1\<close> colours.\<close>

definition tshirt_0_huge :: PriceRequest where
  "tshirt_0_huge =
     \<lparr>service_key = ''tshirt'', quantity = 0, colors = 2 ^ 1024 + 1, print_area = ''medium''\<rparr>"

text \<open>A catalog whose only service is sold by the dozen.\<close>

definition by_the_dozen :: database where
  "by_the_dozen = \<lparr>service = [tshirt\<lparr>minimum_quantity := 12\<rparr>], quoterequest = []\<rparr>"

text \<open>Quote requests: for the hundred t-shirts, for a service that is not sold, for a single t-shirt.\<close>

definition quote_100_3 :: QuoteRequest where
  "quote_100_3 =
     \<lparr>customer_name = ''Ada'', customer_email = ''ada@example.org'', service_key = ''tshirt'',
      quantity = 100, colors = 3, print_area = ''medium'', notes' = None,
      estimated_total = Some (Fin 1)\<rparr>"

definition quote_mug :: QuoteRequest where
  "quote_mug = quote_100_3\<lparr>QuoteRequest.service_key := ''mug''\<rparr>"

definition quote_single :: QuoteRequest where
  "quote_single = quote_100_3\<lparr>QuoteRequest.quantity := 1\<rparr>"

text \<open>
  The t-shirt service with an infinite price per extra colour: \<^verbatim>\<open>float("inf")\<close> satisfies
  \<^verbatim>\<open>ge=0\<close>.
\<close>

definition tshirt_inf :: Service where
  "tshirt_inf = tshirt\<lparr>color_price_per_color := PInf\<rparr>"

text \<open>The same hundred t-shirts in one colour, and in ``minus two'' colours.\<close>

definition tshirt_100_1 :: PriceRequest where
  "tshirt_100_1 =
     \<lparr>service_key = ''tshirt'', quantity = 100, colors = 1, print_area = ''medium''\<rparr>"

definition tshirt_100_minus2 :: PriceRequest where
  "tshirt_100_minus2 =
     \<lparr>service_key = ''tshirt'', quantity = 100, colors = - 2, print_area = ''medium''\<rparr>"

text \<open>The answers of \<open>calculate_price\<close> to the requests for a hundred t-shirts.\<close>

definition price_100_3 :: PriceResponse where
  "price_100_3 =
     \<lparr>unit_price = rd (503 / 100), total_price = Fin 503,
      breakdown = \<lparr>base = Fin 6, colors = 3, color_add_per_unit = rd (35 / 100),
                   area_multiplier = Fin 1, volume_discounts = True\<rparr>\<rparr>"

definition price_100_1 :: PriceResponse where
  "price_100_1 =
     \<lparr>unit_price = Fin (9 / 2), total_price = Fin 450,
      breakdown = \<lparr>base = Fin 6, colors = 1, color_add_per_unit = rd (35 / 100),
                   area_multiplier = Fin 1, volume_discounts = True\<rparr>\<rparr>"




section \<open>Properties of the rounding\<close>

lemma bit_length_bounds:
  "0 < n \<Longrightarrow> 2 ^ (bit_length n - 1) \<le> n \<and> n < 2 ^ bit_length n"
proof (induction n rule: bit_length.induct)
  case (1 n)
  show ?case
  proof (cases "n div 2 = 0")
    case True
    with 1 have "n = 1" by (simp add: div_eq_0_iff) 
    then show ?thesis by (simp add: bit_length.simps)
  next
    case False
    then have pos: "0 < n div 2" by simp
    from 1 have n0: "n \<noteq> 0" by simp
    have IH: "2 ^ (bit_length (n div 2) - 1) \<le> n div 2 \<and> n div 2 < 2 ^ bit_length (n div 2)"
      using "1.IH" [OF n0 pos] .
    have bl: "bit_length n = Suc (bit_length (n div 2))"
      using n0 by (subst bit_length.simps) simp
    have blpos: "0 < bit_length (n div 2)"
      using pos by (subst bit_length.simps) simp
    then obtain k where k: "bit_length (n div 2) = Suc k" by (cases "bit_length (n div 2)") auto
    from IH k have a: "2 ^ k \<le> n div 2" and b: "n div 2 < 2 ^ Suc k" by simp_all
    from a have "2 * 2 ^ k \<le> n" by linarith
    moreover from b have "n < 2 * 2 ^ Suc k" by linarith
    ultimately show ?thesis by (simp add: bl k)
  qed
qed

lemma bit_length_pos: "0 < n \<Longrightarrow> 0 < bit_length n"
  by (subst bit_length.simps) simp

lemma round_half_even_of_int: "round_half_even (of_int n) = n"
  by (simp add: round_half_even_def)

lemma round_half_even_floor:
  "\<lfloor>x\<rfloor> \<le> round_half_even x \<and> round_half_even x \<le> \<lfloor>x\<rfloor> + 1"
  by (simp add: round_half_even_def Let_def)

lemma round_half_even_mono:
  assumes "x \<le> y"
  shows "round_half_even x \<le> round_half_even y"
proof (cases "\<lfloor>x\<rfloor> = \<lfloor>y\<rfloor>")
  case True
  with assms have "x - of_int \<lfloor>x\<rfloor> \<le> y - of_int \<lfloor>y\<rfloor>" by simp
  with True show ?thesis by (auto simp add: round_half_even_def Let_def)
next
  case False
  with assms have "\<lfloor>x\<rfloor> < \<lfloor>y\<rfloor>" using floor_mono [OF assms] by linarith
  then show ?thesis
    using round_half_even_floor [of x] round_half_even_floor [of y] by linarith
qed


lemma ilog2_bounds:
  assumes "0 < x"
  shows "2 powi ilog2 x \<le> x \<and> x < 2 powi (ilog2 x + 1)"
proof (cases "1 \<le> x")
  case True
  define n where "n = nat \<lfloor>x\<rfloor>"
  have f1: "1 \<le> \<lfloor>x\<rfloor>" using True by linarith
  then have npos: "0 < n" by (simp add: n_def)
  have nf: "int n = \<lfloor>x\<rfloor>" using f1 by (simp add: n_def)
  obtain k where k: "bit_length n = Suc k"
    using bit_length_pos [OF npos] by (cases "bit_length n") auto
  from bit_length_bounds [OF npos] k have a: "2 ^ k \<le> n" and b: "n < 2 ^ Suc k" by simp_all
  have e: "ilog2 x = int k" using True k by (simp add: ilog2_def n_def)
  have "(2::rat) ^ k \<le> of_nat n" using a by (metis of_nat_le_iff of_nat_numeral of_nat_power)
  also have "(of_nat n :: rat) = of_int \<lfloor>x\<rfloor>" using nf by (metis of_int_of_nat_eq)
  also have "\<dots> \<le> x" by simp
  finally have lo: "(2::rat) ^ k \<le> x" .
  have "int n + 1 \<le> 2 ^ Suc k" using b by (metis add.commute of_nat_Suc of_nat_le_iff of_nat_numeral of_nat_power Suc_leI)
  then have "\<lfloor>x\<rfloor> + 1 \<le> 2 ^ Suc k" using nf by simp
  then have "(of_int (\<lfloor>x\<rfloor> + 1) :: rat) \<le> of_int (2 ^ Suc k)" by (simp only: of_int_le_iff)
  moreover have "x < of_int (\<lfloor>x\<rfloor> + 1)" by linarith
  ultimately have hi: "x < 2 ^ Suc k" by simp
  have "int k + 1 = int (Suc k)" by simp
  then have "(2::rat) powi (int k + 1) = 2 ^ Suc k" by (simp only: power_int_of_nat)
  with lo hi e show ?thesis by simp
next
  case False
  define y where "y = 1 / x"
  have y1: "1 < y" using False assms by (simp add: y_def)
  define c where "c = \<lceil>y\<rceil> - 1"
  have c1: "1 \<le> c" using y1 by (simp add: c_def)
  have cy: "of_int c < y" "y \<le> of_int c + 1" by (simp_all add: c_def) linarith+
  define n where "n = nat c"
  have npos: "0 < n" using c1 by (simp add: n_def)
  have nc: "int n = c" using c1 by (simp add: n_def)
  obtain k where k: "bit_length n = Suc k"
    using bit_length_pos [OF npos] by (cases "bit_length n") auto
  from bit_length_bounds [OF npos] k have a: "2 ^ k \<le> n" and b: "n < 2 ^ Suc k" by simp_all
  have e: "ilog2 x = - int (Suc k)" using False k by (simp add: ilog2_def n_def c_def y_def)
  have "(2::rat) ^ k \<le> of_nat n" using a by (metis of_nat_le_iff of_nat_numeral of_nat_power)
  also have "(of_nat n :: rat) = of_int c" using nc by (metis of_int_of_nat_eq)
  also have "\<dots> < y" by (rule cy)
  finally have lo: "(2::rat) ^ k < y" .
  have "int n + 1 \<le> 2 ^ Suc k" using b by (metis add.commute of_nat_Suc of_nat_le_iff of_nat_numeral of_nat_power Suc_leI)
  then have "c + 1 \<le> 2 ^ Suc k" using nc by simp
  then have "(of_int (c + 1) :: rat) \<le> of_int (2 ^ Suc k)" by (simp only: of_int_le_iff)
  with cy(2) have hi: "y \<le> 2 ^ Suc k" by simp
  have xy: "x = 1 / y" by (simp add: y_def)
  have ypos: "0 < y" using y1 by simp
  have p1: "(2::rat) powi (- int (Suc k)) = 1 / 2 ^ Suc k"
    by (simp only: power_int_minus_divide power_int_of_nat)
  have "- int (Suc k) + 1 = - int k" by simp
  then have p2: "(2::rat) powi (- int (Suc k) + 1) = 1 / 2 ^ k"
    by (simp only: power_int_minus_divide power_int_of_nat)
  have "1 / 2 ^ Suc k \<le> 1 / y" using hi ypos by (simp add: frac_le)
  moreover have "1 / y < 1 / 2 ^ k" using lo by (simp add: frac_less2)
  ultimately show ?thesis using e p1 p2 xy by simp
qed

lemma pow2_less_imp:
  assumes "(2::rat) powi a < 2 powi b"
  shows "a < b"
proof (rule ccontr)
  assume "\<not> a < b"
  then have "b \<le> a" by simp
  then have "(2::rat) powi b \<le> 2 powi a" by (rule power_int_increasing) simp
  with assms show False by simp
qed

lemma ilog2_unique:
  assumes "0 < x" "2 powi e \<le> x" "x < 2 powi (e + 1)"
  shows "ilog2 x = e"
proof -
  from ilog2_bounds [OF assms(1)] have b: "2 powi ilog2 x \<le> x" "x < 2 powi (ilog2 x + 1)" by simp_all
  have "(2::rat) powi e < 2 powi (ilog2 x + 1)" using assms(2) b(2) by simp
  then have 1: "e < ilog2 x + 1" by (rule pow2_less_imp)
  have "(2::rat) powi ilog2 x < 2 powi (e + 1)" using assms(3) b(1) by simp
  then have 2: "ilog2 x < e + 1" by (rule pow2_less_imp)
  from 1 2 show ?thesis by simp
qed

lemma ilog2_mono:
  assumes "0 < x" "x \<le> y"
  shows "ilog2 x \<le> ilog2 y"
proof -
  have ypos: "0 < y" using assms by simp
  from ilog2_bounds [OF assms(1)] have bx: "2 powi ilog2 x \<le> x" by simp
  from ilog2_bounds [OF ypos] have "y < 2 powi (ilog2 y + 1)" by simp
  with bx assms(2) have "(2::rat) powi ilog2 x < 2 powi (ilog2 y + 1)" by simp
  then have "ilog2 x < ilog2 y + 1" by (rule pow2_less_imp)
  then show ?thesis by simp
qed


lemma pow2_grid:
  assumes "u \<le> k"
  shows "(2::rat) powi k = of_int (2 ^ nat (k - u)) * 2 powi u"
proof -
  have "(2::rat) powi k = 2 powi ((k - u) + u)" by simp
  also have "\<dots> = 2 powi (k - u) * 2 powi u" by (rule power_int_add) simp
  also have "(2::rat) powi (k - u) = 2 ^ nat (k - u)" using assms by (simp add: power_int_def)
  finally show ?thesis by simp
qed

lemma ulp_exp_mono:
  assumes "0 < x" "x \<le> y"
  shows "ulp_exp x \<le> ulp_exp y"
proof -
  have "ilog2 \<bar>x\<bar> \<le> ilog2 \<bar>y\<bar>" using assms ilog2_mono [of x y] by simp
  then show ?thesis by (simp add: ulp_exp_def)
qed

lemma nearest_pos:
  "0 < x \<Longrightarrow> nearest x = of_int (round_half_even (x / 2 powi ulp_exp x)) * 2 powi ulp_exp x"
  by (simp add: nearest_def)

lemma nearest_le_grid:
  assumes "0 < x" "x \<le> 2 powi k" "ulp_exp x \<le> k"
  shows "nearest x \<le> 2 powi k"
proof -
  define u where "u = ulp_exp x"
  have pu: "(0::rat) < 2 powi u" by simp
  have g: "(2::rat) powi k = of_int (2 ^ nat (k - u)) * 2 powi u"
    using assms(3) by (simp only: u_def pow2_grid)
  have "x / 2 powi u \<le> (of_int (2 ^ nat (k - u)) * 2 powi u) / 2 powi u"
    using assms(2) pu g by (simp only: divide_right_mono less_imp_le)
  also have "\<dots> = of_int (2 ^ nat (k - u))" using pu by simp
  finally have "round_half_even (x / 2 powi u) \<le> round_half_even (of_int (2 ^ nat (k - u)))"
    by (rule round_half_even_mono)
  then have "round_half_even (x / 2 powi u) \<le> 2 ^ nat (k - u)"
    by (simp only: round_half_even_of_int)
  then have "(of_int (round_half_even (x / 2 powi u)) :: rat) \<le> of_int (2 ^ nat (k - u))"
    by (simp only: of_int_le_iff)
  then have "(of_int (round_half_even (x / 2 powi u)) :: rat) * 2 powi u \<le> of_int (2 ^ nat (k - u)) * 2 powi u"
    using pu by (intro mult_right_mono) simp_all
  then show ?thesis using assms(1) g by (simp only: nearest_pos u_def)
qed

lemma nearest_ge_grid:
  assumes "0 < x" "2 powi k \<le> x" "ulp_exp x \<le> k"
  shows "2 powi k \<le> nearest x"
proof -
  define u where "u = ulp_exp x"
  have pu: "(0::rat) < 2 powi u" by simp
  have g: "(2::rat) powi k = of_int (2 ^ nat (k - u)) * 2 powi u"
    using assms(3) by (simp only: u_def pow2_grid)
  have "(of_int (2 ^ nat (k - u)) * 2 powi u) / 2 powi u \<le> x / 2 powi u"
    using assms(2) pu g by (simp only: divide_right_mono less_imp_le)
  moreover have "(of_int (2 ^ nat (k - u)) * 2 powi u) / 2 powi u = (of_int (2 ^ nat (k - u)) :: rat)"
    using pu by simp
  ultimately have "(of_int (2 ^ nat (k - u)) :: rat) \<le> x / 2 powi u" by simp
  then have "round_half_even (of_int (2 ^ nat (k - u))) \<le> round_half_even (x / 2 powi u)"
    by (rule round_half_even_mono)
  then have "2 ^ nat (k - u) \<le> round_half_even (x / 2 powi u)"
    by (simp only: round_half_even_of_int)
  then have "(of_int (2 ^ nat (k - u)) :: rat) \<le> of_int (round_half_even (x / 2 powi u))"
    by (simp only: of_int_le_iff)
  then have "(of_int (2 ^ nat (k - u)) :: rat) * 2 powi u \<le> of_int (round_half_even (x / 2 powi u)) * 2 powi u"
    using pu by (intro mult_right_mono) simp_all
  then show ?thesis using assms(1) g by (simp only: nearest_pos u_def)
qed

lemma nearest_nonneg:
  assumes "0 \<le> x"
  shows "0 \<le> nearest x"
proof (cases "x = 0")
  case True
  then show ?thesis by (simp add: nearest_def)
next
  case False
  with assms have xpos: "0 < x" by simp
  have "0 \<le> x / 2 powi ulp_exp x" using assms by simp
  then have "round_half_even 0 \<le> round_half_even (x / 2 powi ulp_exp x)"
    by (rule round_half_even_mono)
  then have "0 \<le> round_half_even (x / 2 powi ulp_exp x)"
    using round_half_even_of_int [of 0] by simp
  then show ?thesis using xpos by (simp add: nearest_pos)
qed

lemma nearest_mono:
  assumes "0 \<le> x" "x \<le> y"
  shows "nearest x \<le> nearest y"
proof (cases "x = 0")
  case True
  have "0 \<le> nearest y" using assms by (intro nearest_nonneg) simp
  with True show ?thesis by (simp add: nearest_def)
next
  case False
  with assms have xpos: "0 < x" and ypos: "0 < y" by simp_all
  have um: "ulp_exp x \<le> ulp_exp y" using xpos assms(2) by (rule ulp_exp_mono)
  show ?thesis
  proof (cases "ulp_exp x = ulp_exp y")
    case True
    define u where "u = ulp_exp y"
    have pu: "(0::rat) < 2 powi u" by simp
    have "x / 2 powi u \<le> y / 2 powi u" using assms(2) pu by (simp only: divide_right_mono less_imp_le)
    then have "round_half_even (x / 2 powi u) \<le> round_half_even (y / 2 powi u)"
      by (rule round_half_even_mono)
    then have "(of_int (round_half_even (x / 2 powi u)) :: rat) \<le> of_int (round_half_even (y / 2 powi u))"
      by (simp only: of_int_le_iff)
    then have "(of_int (round_half_even (x / 2 powi u)) :: rat) * 2 powi u
        \<le> of_int (round_half_even (y / 2 powi u)) * 2 powi u"
      using pu by (intro mult_right_mono) simp_all
    then show ?thesis using xpos ypos True by (simp only: nearest_pos u_def)
  next
    case False
    with um have lt: "ulp_exp x < ulp_exp y" by simp
    define E where "E = ilog2 y"
    have ax: "\<bar>x\<bar> = x" and ay: "\<bar>y\<bar> = y" using xpos ypos by simp_all
    from lt have "max (ilog2 x) (- 1022) < max (ilog2 y) (- 1022)"
      by (simp add: ulp_exp_def ax ay)
    then have m: "max (ilog2 y) (- 1022) = ilog2 y" and ex: "ilog2 x < E"
      by (simp_all add: E_def max_def split: if_splits)
    have uy: "ulp_exp y = E - 52" using m by (simp add: ulp_exp_def ay E_def)
    have ux: "ulp_exp x < E - 52" using lt uy by simp
    from ilog2_bounds [OF xpos] have "x < 2 powi (ilog2 x + 1)" by simp
    also have "(2::rat) powi (ilog2 x + 1) \<le> 2 powi E" using ex by (intro power_int_increasing) simp_all
    finally have xE: "x \<le> 2 powi E" by simp
    from ilog2_bounds [OF ypos] have yE: "2 powi E \<le> y" by (simp add: E_def)
    have "nearest x \<le> 2 powi E" using xpos xE ux by (intro nearest_le_grid) simp_all
    also have "2 powi E \<le> nearest y" using ypos yE uy by (intro nearest_ge_grid) simp_all
    finally show ?thesis .
  qed
qed


lemma ilog2_pow2: "ilog2 (2 powi k) = k"
proof (rule ilog2_unique)
  show "(2::rat) powi k < 2 powi (k + 1)" by (rule power_int_strict_increasing) simp_all
qed simp_all

lemma overflow_iff:
  assumes "0 < y"
  shows "1024 \<le> ilog2 y \<longleftrightarrow> 2 powi 1024 \<le> y"
proof
  assume "1024 \<le> ilog2 y"
  then have "(2::rat) powi 1024 \<le> 2 powi ilog2 y" by (intro power_int_increasing) simp_all
  also have "\<dots> \<le> y" using ilog2_bounds [OF assms] by simp
  finally show "2 powi 1024 \<le> y" .
next
  assume a: "2 powi 1024 \<le> y"
  have "ilog2 (2 powi 1024) \<le> ilog2 y" using a by (intro ilog2_mono) simp_all
  then show "1024 \<le> ilog2 y" by (simp only: ilog2_pow2)
qed

lemma rd_nonneg_eq:
  assumes "0 \<le> x"
  shows "rd x = (if 2 powi 1024 \<le> nearest x then PInf else Fin (nearest x))"
proof (cases "nearest x = 0")
  case True
  have "\<not> (2::rat) powi 1024 \<le> 0" by (simp add: not_le)
  with True show ?thesis by (simp add: rd_def)
next
  case False
  with nearest_nonneg [OF assms] have pos: "0 < nearest x" by simp
  then have "\<bar>nearest x\<bar> = nearest x" by simp
  with pos overflow_iff [OF pos] False show ?thesis by (simp add: rd_def Let_def)
qed

lemma rd_nonneg: "0 \<le> x \<Longrightarrow> nonneg (rd x)"
  using nearest_nonneg [of x] by (simp add: rd_nonneg_eq)

lemma rd_mono:
  assumes "0 \<le> x" "x \<le> y"
  shows "fle (rd x) (rd y)"
proof -
  have y0: "0 \<le> y" using assms by simp
  have "nearest x \<le> nearest y" using assms by (rule nearest_mono)
  then show ?thesis by (simp add: rd_nonneg_eq [OF assms(1)] rd_nonneg_eq [OF y0])
qed

lemma fmul_Fin_mono:
  assumes "0 \<le> a" "a \<le> b" "0 \<le> k"
  shows "fle (fmul (Fin a) (Fin k)) (fmul (Fin b) (Fin k))"
  using assms by (simp add: rd_mono mult_right_mono)

lemma fmul_Fin_nonneg: "0 \<le> a \<Longrightarrow> 0 \<le> k \<Longrightarrow> nonneg (fmul (Fin a) (Fin k))"
  by (simp add: rd_nonneg)

lemma fmul_nonneg: "nonneg a \<Longrightarrow> 0 < k \<Longrightarrow> nonneg (fmul a (Fin k))"
  by (cases a) (simp_all add: rd_nonneg)

lemma fmul_mono:
  assumes "nonneg a" "nonneg b" "fle a b" "0 < k"
  shows "fle (fmul a (Fin k)) (fmul b (Fin k))"
proof (cases b)
  case (Fin y)
  with assms obtain x where "a = Fin x" "0 \<le> x" "x \<le> y" by (cases a) simp_all
  with Fin assms(4) show ?thesis by (simp add: rd_mono mult_right_mono)
next
  case PInf
  have "nonneg (fmul a (Fin k))" using assms(1,4) by (rule fmul_nonneg)
  then show ?thesis using PInf assms(4) by (cases "fmul a (Fin k)") simp_all
qed (use assms in simp_all)

lemma fadd_nonneg: "nonneg c \<Longrightarrow> nonneg a \<Longrightarrow> nonneg (fadd c a)"
  by (cases c; cases a) (simp_all add: rd_nonneg)

lemma fadd_mono:
  assumes "nonneg c" "nonneg a" "nonneg b" "fle a b"
  shows "fle (fadd c a) (fadd c b)"
proof (cases c)
  case c: (Fin z)
  show ?thesis
  proof (cases b)
    case (Fin y)
    with assms obtain x where "a = Fin x" "0 \<le> x" "x \<le> y" by (cases a) simp_all
    with Fin c assms(1) show ?thesis by (simp add: rd_mono)
  next
    case PInf
    have "nonneg (fadd c a)" using assms(1,2) by (rule fadd_nonneg)
    then show ?thesis using PInf c by (cases "fadd c a") simp_all
  qed (use assms in simp_all)
next
  case PInf
  with assms(2,3) show ?thesis by (cases a; cases b) simp_all
qed (use assms in simp_all)

lemma py_round_nonneg:
  assumes "nonneg a"
  shows "nonneg (py_round a n)"
proof (cases a)
  case (Fin x)
  with assms have "0 \<le> x * 10 ^ n" by simp
  then have "round_half_even 0 \<le> round_half_even (x * 10 ^ n)" by (rule round_half_even_mono)
  then have "0 \<le> round_half_even (x * 10 ^ n)" using round_half_even_of_int [of 0] by simp
  then show ?thesis using Fin by (simp add: rd_nonneg)
qed (use assms in simp_all)

lemma py_round_mono:
  assumes "nonneg a" "nonneg b" "fle a b"
  shows "fle (py_round a n) (py_round b n)"
proof (cases b)
  case (Fin y)
  with assms obtain x where x: "a = Fin x" "0 \<le> x" "x \<le> y" by (cases a) simp_all
  have "0 \<le> x * 10 ^ n" using x by simp
  then have "round_half_even 0 \<le> round_half_even (x * 10 ^ n)" by (rule round_half_even_mono)
  then have 0: "0 \<le> round_half_even (x * 10 ^ n)" using round_half_even_of_int [of 0] by simp
  have "x * 10 ^ n \<le> y * 10 ^ n" using x by (simp add: mult_right_mono)
  then have "round_half_even (x * 10 ^ n) \<le> round_half_even (y * 10 ^ n)"
    by (rule round_half_even_mono)
  then have "(of_int (round_half_even (x * 10 ^ n)) :: rat) / 10 ^ n
      \<le> of_int (round_half_even (y * 10 ^ n)) / 10 ^ n"
    by (simp add: divide_right_mono)
  moreover have "(0::rat) \<le> of_int (round_half_even (x * 10 ^ n)) / 10 ^ n" using 0 by simp
  ultimately show ?thesis using Fin x by (simp add: rd_mono)
next
  case PInf
  have "nonneg (py_round a n)" using assms(1) by (rule py_round_nonneg)
  then show ?thesis using PInf by (cases "py_round a n") simp_all
qed (use assms in simp_all)

lemma int_to_float_Inr:
  assumes "0 \<le> n" "int_to_float n = Inr a"
  shows "a = Fin (nearest (of_int n)) \<and> rd (of_int n) = a"
  using assms by (auto simp add: int_to_float_def rd_nonneg_eq split: if_splits double.splits)

lemma int_to_float_overflow:
  assumes "2 powi 1024 \<le> (of_int n :: rat)"
  shows "int_to_float n = Inl OverflowError"
proof -
  define x :: rat where "x = of_int n"
  have xpos: "0 < x" using assms zero_less_power_int [of "2::rat" 1024] by (simp add: x_def)
  have e: "1024 \<le> ilog2 x" using overflow_iff [OF xpos] assms by (simp add: x_def)
  then have u: "ulp_exp x \<le> ilog2 x" using xpos by (simp add: ulp_exp_def)
  have "(2::rat) powi 1024 \<le> 2 powi ilog2 x" using e by (intro power_int_increasing) simp_all
  also have "\<dots> \<le> nearest x"
    using xpos u ilog2_bounds [OF xpos] by (intro nearest_ge_grid) simp_all
  finally have "rd x = PInf" using xpos by (simp add: rd_nonneg_eq)
  then show ?thesis by (simp add: int_to_float_def x_def)
qed

lemma int_to_float_finite:
  assumes "0 \<le> n" "(of_int n :: rat) \<le> 2 powi 1023"
  shows "int_to_float n = Inr (Fin (nearest (of_int n)))"
proof (cases "n = 0")
  case True
  then show ?thesis by (simp add: int_to_float_def rd_def nearest_def)
next
  case False
  define x :: rat where "x = of_int n"
  have xpos: "0 < x" using assms(1) False by (simp add: x_def)
  have "ilog2 x \<le> ilog2 (2 powi 1023)" using xpos assms(2) by (intro ilog2_mono) (simp_all add: x_def)
  then have "ilog2 x \<le> 1023" by (simp only: ilog2_pow2)
  then have u: "ulp_exp x \<le> 1023" using xpos by (simp add: ulp_exp_def)
  have "nearest x \<le> 2 powi 1023" using xpos assms(2) u by (intro nearest_le_grid) (simp_all add: x_def)
  also have "(2::rat) powi 1023 < 2 powi 1024" by (rule power_int_strict_increasing) simp_all
  finally have "rd x = Fin (nearest x)" using xpos by (simp add: rd_nonneg_eq)
  then show ?thesis by (simp add: int_to_float_def x_def)
qed

lemma rd_0: "rd 0 = Fin 0"
  by (simp add: rd_def nearest_def)

lemma rd_1: "rd 1 = Fin 1"
  by code_simp

section \<open>The example requests, evaluated\<close>

text \<open>
  Each rounding below is computed by the definitions of the first section; the steps of
  \<open>calculate_price\<close> on the hundred t-shirts are evaluated one by one and then put together.
\<close>

lemma rd_tenth: "rd (1 / 10) = Fin (3602879701896397 / 36028797018963968)"
  by code_simp

lemma rd_6: "rd 6 = Fin 6"
  by code_simp

lemma rd_35_100: "rd (35 / 100) = Fin (3152519739159347 / 9007199254740992)"
  by code_simp

lemma tshirt_fields:
  "key tshirt = ''tshirt''"
  "base_price tshirt = Fin 6"
  "color_price_per_color tshirt = rd (35 / 100)"
  "print_area_multiplier tshirt = Fin 1"
  "minimum_quantity tshirt = 1"
  by (simp_all only: tshirt_def Service.select_convs rd_6 rd_1)

lemma tshirt_valid: "Service_validate tshirt = Inr tshirt"
  unfolding Service_validate_def tshirt_fields fge_def rd_35_100 rd_tenth by simp

lemma seeded_find_tshirt: "find_one (service seeded) ''tshirt'' = Some tshirt"
  by (simp add: find_one_def seeded_def tshirt_fields)

lemma int_to_float_100: "int_to_float 100 = Inr (Fin 100)"
  by code_simp

lemma before_discount_100_3: "unit_price_before_discount tshirt tshirt_100_3 = Inr (rd (67 / 10))"
  by code_simp

lemma before_discount_100_1: "unit_price_before_discount tshirt tshirt_100_1 = Inr (Fin 6)"
  by code_simp

lemma discounted_100_3:
  "py_round (volume_discount 100 (rd (67 / 10))) 2 = rd (503 / 100)"
  by code_simp

lemma discounted_100_1:
  "py_round (volume_discount 100 (Fin 6)) 2 = Fin (9 / 2)"
  by code_simp

lemma total_100_3: "py_round (fmul (rd (503 / 100)) (Fin 100)) 2 = Fin 503"
  by code_simp

lemma total_100_1: "py_round (fmul (Fin (9 / 2)) (Fin 100)) 2 = Fin 450"
  by code_simp

lemma area_mult_medium:
  "PriceRequest.print_area req = ''medium'' \<Longrightarrow> area_mult svc req = Fin 1"
  by (simp add: area_mult_def area_multiplier_map_def rd_1)

lemma calculate_price_InrI:
  assumes "find_one (service d) (PriceRequest.service_key req) = Some svc"
    and "Service_validate svc = Inr svc"
    and "unit_price_before_discount svc req = Inr p"
    and "minimum_quantity svc \<le> PriceRequest.quantity req"
    and "int_to_float (PriceRequest.quantity req) = Inr qf"
    and "py_round (volume_discount (PriceRequest.quantity req) p) 2 = u"
    and "py_round (fmul u qf) 2 = t"
  shows "calculate_price (Some d) req =
           Inr \<lparr>unit_price = u, total_price = t,
                breakdown =
                  \<lparr>base = base_price svc,
                   colors = PriceRequest.colors req,
                   color_add_per_unit = color_price_per_color svc,
                   area_multiplier = area_mult svc req,
                   volume_discounts = True\<rparr>\<rparr>"
  using assms by (simp add: calculate_price_def Let_def)

lemma tshirt_100_3_fields:
  "PriceRequest.service_key tshirt_100_3 = ''tshirt''"
  "PriceRequest.quantity tshirt_100_3 = 100"
  "PriceRequest.colors tshirt_100_3 = 3"
  "PriceRequest.print_area tshirt_100_3 = ''medium''"
  by (simp_all add: tshirt_100_3_def)

lemma tshirt_100_1_fields:
  "PriceRequest.service_key tshirt_100_1 = ''tshirt''"
  "PriceRequest.quantity tshirt_100_1 = 100"
  "PriceRequest.colors tshirt_100_1 = 1"
  "PriceRequest.print_area tshirt_100_1 = ''medium''"
  by (simp_all add: tshirt_100_1_def)

lemma price_tshirt_100_3: "calculate_price (Some seeded) tshirt_100_3 = Inr price_100_3"
proof -
  have "calculate_price (Some seeded) tshirt_100_3 =
           Inr \<lparr>unit_price = rd (503 / 100), total_price = Fin 503,
                breakdown =
                  \<lparr>base = base_price tshirt,
                   colors = PriceRequest.colors tshirt_100_3,
                   color_add_per_unit = color_price_per_color tshirt,
                   area_multiplier = area_mult tshirt tshirt_100_3,
                   volume_discounts = True\<rparr>\<rparr>"
  proof (rule calculate_price_InrI)
    show "find_one (service seeded) (PriceRequest.service_key tshirt_100_3) = Some tshirt"
      by (simp only: tshirt_100_3_fields seeded_find_tshirt)
    show "unit_price_before_discount tshirt tshirt_100_3 = Inr (rd (67 / 10))"
      by (rule before_discount_100_3)
    show "minimum_quantity tshirt \<le> PriceRequest.quantity tshirt_100_3"
      by (simp add: tshirt_fields tshirt_100_3_fields)
    show "int_to_float (PriceRequest.quantity tshirt_100_3) = Inr (Fin 100)"
      by (simp only: tshirt_100_3_fields int_to_float_100)
    show "py_round (volume_discount (PriceRequest.quantity tshirt_100_3) (rd (67 / 10))) 2 = rd (503 / 100)"
      by (simp only: tshirt_100_3_fields discounted_100_3)
    show "py_round (fmul (rd (503 / 100)) (Fin 100)) 2 = Fin 503"
      by (rule total_100_3)
  qed (rule tshirt_valid)
  then show ?thesis
    by (simp only: price_100_3_def tshirt_fields tshirt_100_3_fields area_mult_medium)
qed

lemma price_tshirt_100_1: "calculate_price (Some seeded) tshirt_100_1 = Inr price_100_1"
proof -
  have "calculate_price (Some seeded) tshirt_100_1 =
           Inr \<lparr>unit_price = Fin (9 / 2), total_price = Fin 450,
                breakdown =
                  \<lparr>base = base_price tshirt,
                   colors = PriceRequest.colors tshirt_100_1,
                   color_add_per_unit = color_price_per_color tshirt,
                   area_multiplier = area_mult tshirt tshirt_100_1,
                   volume_discounts = True\<rparr>\<rparr>"
  proof (rule calculate_price_InrI)
    show "find_one (service seeded) (PriceRequest.service_key tshirt_100_1) = Some tshirt"
      by (simp only: tshirt_100_1_fields seeded_find_tshirt)
    show "unit_price_before_discount tshirt tshirt_100_1 = Inr (Fin 6)"
      by (rule before_discount_100_1)
    show "minimum_quantity tshirt \<le> PriceRequest.quantity tshirt_100_1"
      by (simp add: tshirt_fields tshirt_100_1_fields)
    show "int_to_float (PriceRequest.quantity tshirt_100_1) = Inr (Fin 100)"
      by (simp only: tshirt_100_1_fields int_to_float_100)
    show "py_round (volume_discount (PriceRequest.quantity tshirt_100_1) (Fin 6)) 2 = Fin (9 / 2)"
      by (simp only: tshirt_100_1_fields discounted_100_1)
    show "py_round (fmul (Fin (9 / 2)) (Fin 100)) 2 = Fin 450"
      by (rule total_100_1)
  qed (rule tshirt_valid)
  then show ?thesis
    by (simp only: price_100_1_def tshirt_fields tshirt_100_1_fields area_mult_medium)
qed


lemma rd_nine_tenths: "rd (9 / 10) = Fin (8106479329266893 / 9007199254740992)"
  by code_simp

lemma int_to_float_0: "int_to_float 0 = Inr (Fin 0)"
  by (simp add: int_to_float_def rd_0)

lemma int_to_float_2: "int_to_float 2 = Inr (Fin 2)"
  by code_simp

lemma color_add_100_3: "color_add tshirt tshirt_100_3 = Inr (rd (7 / 10))"
  by code_simp

lemma volume_discount_100_3: "volume_discount 100 (rd (67 / 10)) = rd (5025 / 1000)"
  by code_simp

lemma rd_5025: "rd (5025 / 1000) = Fin (2828823515942093 / 562949953421312)"
  by code_simp

lemma rd_503_not_502: "rd (503 / 100) \<noteq> rd (502 / 100)"
  by code_simp

lemma times_100: "fmul (rd (503 / 100)) (Fin 100) = Fin 503"
  by code_simp

lemma fle_6_67: "fle (Fin 6) (rd (67 / 10))"
  by code_simp

lemma tshirt_finite:
  "isfinite (base_price tshirt)"
  "isfinite (color_price_per_color tshirt)"
  "isfinite (print_area_multiplier tshirt)"
  by (simp_all only: tshirt_fields rd_35_100 isfinite.simps)

lemma tshirt_100_1_to_3: "tshirt_100_1\<lparr>PriceRequest.colors := 3\<rparr> = tshirt_100_3"
  by (simp add: tshirt_100_1_def tshirt_100_3_def)

lemma tshirt_100_minus2_to_1: "tshirt_100_minus2\<lparr>PriceRequest.colors := 1\<rparr> = tshirt_100_1"
  by (simp add: tshirt_100_minus2_def tshirt_100_1_def)

lemma price_request_of_quote_100_3: "price_request_of quote_100_3 = tshirt_100_3"
  by (simp add: price_request_of_def quote_100_3_def tshirt_100_3_def)

lemma seeded_find_mug: "find_one (service seeded) ''mug'' = None"
  by (simp add: find_one_def seeded_def tshirt_def tote_bag_def hoodie_def)

lemma dozen_find_tshirt:
  "find_one (service by_the_dozen) ''tshirt'' = Some (tshirt\<lparr>minimum_quantity := 12\<rparr>)"
  by (simp add: find_one_def by_the_dozen_def tshirt_fields)

lemma dozen_valid:
  "Service_validate (tshirt\<lparr>minimum_quantity := 12\<rparr>) = Inr (tshirt\<lparr>minimum_quantity := 12\<rparr>)"
proof -
  have "fge (base_price tshirt) (Fin 0) \<and> fge (color_price_per_color tshirt) (Fin 0)
      \<and> fge (print_area_multiplier tshirt) (rd (1 / 10))"
    using tshirt_valid by (simp add: Service_validate_def split: if_splits)
  then show ?thesis by (simp add: Service_validate_def)
qed

section \<open>The pricing formula\<close>

text \<open>
  C1.  The unit price before the volume discount is
  \<^verbatim>\<open>round((base_price + max(0, colors - 1) * color_price_per_color) * area_multiplier, 2)\<close>,
  every operation being the one of Python floats, where the area multiplier is the
  float \<open>0.9\<close> for \<^verbatim>\<open>"small"\<close>, \<open>1.0\<close> for \<^verbatim>\<open>"medium"\<close>, the service's
  \<open>print_area_multiplier\<close> for \<^verbatim>\<open>"large"\<close> and \<open>1.0\<close> for every other string.  If the
  integer \<open>max(0, colors - 1)\<close> is too large for a float, the multiplication raises and
  there is no price.
\<close>

theorem unit_price_before_discount_formula:
  "unit_price_before_discount svc req =
     (case int_to_float (max 0 (PriceRequest.colors req - 1)) of
        Inl e \<Rightarrow> Inl e
      | Inr n \<Rightarrow>
          Inr (py_round
                 (fmul (fadd (base_price svc) (fmul n (color_price_per_color svc)))
                    (if PriceRequest.print_area req = ''small'' then rd (9 / 10)
                     else if PriceRequest.print_area req = ''medium'' then Fin 1
                     else if PriceRequest.print_area req = ''large'' then print_area_multiplier svc
                     else Fin 1))
                 2))"
  by (simp add: unit_price_before_discount_def color_add_def area_mult_def
        area_multiplier_map_def rd_1 split: sum.splits)


text \<open>The formula at the hundred one-colour t-shirts: \<open>(6.0 + 0 * 0.35) * 1.0\<close>, rounded.\<close>

theorem unit_price_before_discount_formula_witness:
  "unit_price_before_discount tshirt tshirt_100_1
     = Inr (py_round (fmul (fadd (Fin 6) (fmul (Fin 0) (rd (35 / 100)))) (Fin 1)) 2)"
  using unit_price_before_discount_formula [of tshirt tshirt_100_1]
  by (simp add: tshirt_100_1_fields tshirt_fields int_to_float_0)

lemma calculate_price_Inr:
  assumes "calculate_price db req = Inr resp"
  shows "\<exists>d svc p qf.
           db = Some d
         \<and> find_one (service d) (PriceRequest.service_key req) = Some svc
         \<and> Service_validate svc = Inr svc
         \<and> unit_price_before_discount svc req = Inr p
         \<and> minimum_quantity svc \<le> PriceRequest.quantity req
         \<and> int_to_float (PriceRequest.quantity req) = Inr qf
         \<and> resp = \<lparr>unit_price = py_round (volume_discount (PriceRequest.quantity req) p) 2,
                     total_price =
                       py_round (fmul (py_round (volume_discount (PriceRequest.quantity req) p) 2) qf) 2,
                     breakdown =
                       \<lparr>base = base_price svc,
                        colors = PriceRequest.colors req,
                        color_add_per_unit = color_price_per_color svc,
                        area_multiplier = area_mult svc req,
                        volume_discounts = True\<rparr>\<rparr>"
  using assms
  by (auto simp add: calculate_price_def Service_validate_def Let_def
        split: option.splits sum.splits if_splits)


text \<open>
  C2.  When \<open>calculate_price\<close> returns, the unit price it returns is the price before
  discount (itself already rounded to two decimals) taken through exactly one branch of
  the quantity steps, and rounded to two decimals again: times \<open>0.75\<close> from 100 items,
  times \<open>0.82\<close> from 50 to 99, times \<open>0.9\<close> from 20 to 49, unchanged below 20.
\<close>

theorem volume_discount_step:
  assumes "calculate_price db req = Inr resp"
  shows "\<exists>d svc n raw.
           db = Some d
         \<and> find_one (service d) (PriceRequest.service_key req) = Some svc
         \<and> int_to_float (max 0 (PriceRequest.colors req - 1)) = Inr n
         \<and> raw = fmul (fadd (base_price svc) (fmul n (color_price_per_color svc))) (area_mult svc req)
         \<and> unit_price_before_discount svc req = Inr (py_round raw 2)
         \<and> (100 \<le> PriceRequest.quantity req \<longrightarrow>
               unit_price resp = py_round (fmul (py_round raw 2) (rd (75 / 100))) 2)
         \<and> (50 \<le> PriceRequest.quantity req \<and> PriceRequest.quantity req < 100 \<longrightarrow>
               unit_price resp = py_round (fmul (py_round raw 2) (rd (82 / 100))) 2)
         \<and> (20 \<le> PriceRequest.quantity req \<and> PriceRequest.quantity req < 50 \<longrightarrow>
               unit_price resp = py_round (fmul (py_round raw 2) (rd (9 / 10))) 2)
         \<and> (PriceRequest.quantity req < 20 \<longrightarrow>
               unit_price resp = py_round (py_round raw 2) 2)"
proof -
  from calculate_price_Inr [OF assms] obtain d svc p qf where
    h: "db = Some d" "find_one (service d) (PriceRequest.service_key req) = Some svc"
       "unit_price_before_discount svc req = Inr p"
       "unit_price resp = py_round (volume_discount (PriceRequest.quantity req) p) 2"
    by auto
  from h(3) obtain n where
    n: "int_to_float (max 0 (PriceRequest.colors req - 1)) = Inr n"
       "p = py_round (fmul (fadd (base_price svc) (fmul n (color_price_per_color svc))) (area_mult svc req)) 2"
    by (auto simp add: unit_price_before_discount_def color_add_def split: sum.splits)
  show ?thesis
    using h n by (auto simp add: volume_discount_def)
qed


text \<open>A hundred t-shirts take the first branch.\<close>

theorem volume_discount_step_witness:
  "calculate_price (Some seeded) tshirt_100_3 = Inr price_100_3
   \<and> (\<exists>raw. unit_price_before_discount tshirt tshirt_100_3 = Inr (py_round raw 2)
          \<and> unit_price price_100_3 = py_round (fmul (py_round raw 2) (rd (75 / 100))) 2)"
proof -
  from volume_discount_step [OF price_tshirt_100_3] obtain d svc n raw where
    h: "Some seeded = Some d"
       "find_one (service d) (PriceRequest.service_key tshirt_100_3) = Some svc"
       "unit_price_before_discount svc tshirt_100_3 = Inr (py_round raw 2)"
       "100 \<le> PriceRequest.quantity tshirt_100_3 \<longrightarrow>
          unit_price price_100_3 = py_round (fmul (py_round raw 2) (rd (75 / 100))) 2"
    by blast
  from h(1,2) have "svc = tshirt" by (simp add: tshirt_100_3_fields seeded_find_tshirt)
  moreover have "100 \<le> PriceRequest.quantity tshirt_100_3" by (simp add: tshirt_100_3_fields)
  ultimately show ?thesis using h(3,4) price_tshirt_100_3 by blast
qed

text \<open>
  C3.  When \<open>calculate_price\<close> returns, which it does only for a quantity that is at
  least the minimum of a service that passed its validation, the total price it
  returns is \<^verbatim>\<open>round(unit_price * quantity, 2)\<close> for the unit price it returns.
\<close>

theorem total_price_formula:
  assumes "calculate_price db req = Inr resp"
  shows "\<exists>qf. int_to_float (PriceRequest.quantity req) = Inr qf
            \<and> total_price resp = py_round (fmul (unit_price resp) qf) 2"
  using calculate_price_Inr [OF assms] by auto


theorem total_price_formula_witness:
  "calculate_price (Some seeded) tshirt_100_3 = Inr price_100_3
   \<and> int_to_float (PriceRequest.quantity tshirt_100_3) = Inr (Fin 100)
   \<and> total_price price_100_3 = py_round (fmul (unit_price price_100_3) (Fin 100)) 2"
proof -
  from total_price_formula [OF price_tshirt_100_3] obtain qf :: double where
    h: "int_to_float (PriceRequest.quantity tshirt_100_3) = Inr qf"
       "total_price price_100_3 = py_round (fmul (unit_price price_100_3) qf) 2"
    by blast
  have q: "int_to_float (PriceRequest.quantity tshirt_100_3) = Inr (Fin 100)"
    by (simp only: tshirt_100_3_fields int_to_float_100)
  with h(1) have "qf = Fin 100" by simp
  with h(2) q price_tshirt_100_3 show ?thesis by blast
qed

section \<open>The failures of calculate_price\<close>

lemma unit_price_before_discount_Inr:
  assumes "int_to_float (max 0 (PriceRequest.colors req - 1)) = Inr n"
  shows "\<exists>p. unit_price_before_discount svc req = Inr p"
  using assms by (simp add: unit_price_before_discount_def color_add_def)

lemma unit_price_before_discount_overflow:
  assumes "2 ^ 1024 \<le> PriceRequest.colors req - 1"
  shows "unit_price_before_discount svc req = Inl OverflowError"
proof -
  have "(2::int) ^ 1024 \<le> max 0 (PriceRequest.colors req - 1)" using assms by simp
  then have "(of_int (2 ^ 1024) :: rat) \<le> of_int (max 0 (PriceRequest.colors req - 1))"
    by (simp only: of_int_le_iff)
  then have "(2::rat) powi 1024 \<le> of_int (max 0 (PriceRequest.colors req - 1))" by simp
  then have "int_to_float (max 0 (PriceRequest.colors req - 1)) = Inl OverflowError"
    by (rule int_to_float_overflow)
  then show ?thesis by (simp add: unit_price_before_discount_def color_add_def)
qed


text \<open>
  C4, as the code has it.  With a database configured, \<open>calculate_price\<close> fails with
  status 404 exactly when no service has the requested key.  When the service exists,
  passes the validation of its fields, and \<open>max(0, colors - 1)\<close> converts to a float, it
  fails with status 400 exactly when the quantity is below the service's minimum, and
  it returns a price whenever the quantity is at least the minimum and converts to a
  float too.  (Every integer from 0 to \<open>2 ^ 1023\<close> converts, by \<open>int_to_float_finite\<close>;
  no integer from \<open>2 ^ 1024\<close> on does, by \<open>int_to_float_overflow\<close>.)
\<close>

theorem calculate_price_failures:
  "((\<exists>m. calculate_price (Some d) req = Inl (HTTPException 404 m))
       \<longleftrightarrow> find_one (service d) (PriceRequest.service_key req) = None)
   \<and> (find_one (service d) (PriceRequest.service_key req) = Some svc
        \<and> Service_validate svc = Inr svc
        \<and> int_to_float (max 0 (PriceRequest.colors req - 1)) = Inr n \<longrightarrow>
        ((\<exists>m. calculate_price (Some d) req = Inl (HTTPException 400 m))
            \<longleftrightarrow> PriceRequest.quantity req < minimum_quantity svc)
        \<and> (minimum_quantity svc \<le> PriceRequest.quantity req
             \<and> int_to_float (PriceRequest.quantity req) = Inr qf \<longrightarrow>
             (\<exists>resp. calculate_price (Some d) req = Inr resp)))"
proof (intro conjI impI)
  show "(\<exists>m. calculate_price (Some d) req = Inl (HTTPException 404 m))
       \<longleftrightarrow> find_one (service d) (PriceRequest.service_key req) = None"
    by (auto simp add: calculate_price_def Service_validate_def int_to_float_def
          unit_price_before_discount_def color_add_def Let_def
          split: option.splits sum.splits if_splits double.splits)
next
  assume a: "find_one (service d) (PriceRequest.service_key req) = Some svc
        \<and> Service_validate svc = Inr svc
        \<and> int_to_float (max 0 (PriceRequest.colors req - 1)) = Inr n"
  then obtain p where p: "unit_price_before_discount svc req = Inr p"
    using unit_price_before_discount_Inr by blast
  show "(\<exists>m. calculate_price (Some d) req = Inl (HTTPException 400 m))
            \<longleftrightarrow> PriceRequest.quantity req < minimum_quantity svc"
    using a p
    by (auto simp add: calculate_price_def int_to_float_def Let_def
          split: sum.splits double.splits)
next
  assume a: "find_one (service d) (PriceRequest.service_key req) = Some svc
        \<and> Service_validate svc = Inr svc
        \<and> int_to_float (max 0 (PriceRequest.colors req - 1)) = Inr n"
    and b: "minimum_quantity svc \<le> PriceRequest.quantity req
             \<and> int_to_float (PriceRequest.quantity req) = Inr qf"
  then obtain p where p: "unit_price_before_discount svc req = Inr p"
    using unit_price_before_discount_Inr by blast
  show "\<exists>resp. calculate_price (Some d) req = Inr resp"
    using a b p by (simp add: calculate_price_def Let_def)
qed


theorem calculate_price_failures_witness:
  "find_one (service seeded) (PriceRequest.service_key tshirt_100_3) = Some tshirt
   \<and> Service_validate tshirt = Inr tshirt
   \<and> int_to_float (max 0 (PriceRequest.colors tshirt_100_3 - 1)) = Inr (Fin 2)
   \<and> minimum_quantity tshirt \<le> PriceRequest.quantity tshirt_100_3
   \<and> int_to_float (PriceRequest.quantity tshirt_100_3) = Inr (Fin 100)
   \<and> \<not> (\<exists>m. calculate_price (Some seeded) tshirt_100_3 = Inl (HTTPException 400 m))
   \<and> \<not> (\<exists>m. calculate_price (Some seeded) tshirt_100_3 = Inl (HTTPException 404 m))
   \<and> (\<exists>resp. calculate_price (Some seeded) tshirt_100_3 = Inr resp)"
proof -
  have f: "find_one (service seeded) (PriceRequest.service_key tshirt_100_3) = Some tshirt"
    by (simp only: tshirt_100_3_fields seeded_find_tshirt)
  have c: "int_to_float (max 0 (PriceRequest.colors tshirt_100_3 - 1)) = Inr (Fin 2)"
    using int_to_float_2 by (simp add: tshirt_100_3_fields)
  have m: "minimum_quantity tshirt \<le> PriceRequest.quantity tshirt_100_3"
    by (simp add: tshirt_fields tshirt_100_3_fields)
  have q: "int_to_float (PriceRequest.quantity tshirt_100_3) = Inr (Fin 100)"
    by (simp only: tshirt_100_3_fields int_to_float_100)
  show ?thesis
    using calculate_price_failures [of seeded tshirt_100_3 tshirt "Fin 2" "Fin 100"]
      f tshirt_valid c m q
    by simp
qed

text \<open>
  C4, as the spec has it, fails.  The t-shirt is in the seeded catalog and the quantity
  0 is below its minimum of 1, yet a request with \<open>2 ^ 1024 + 1\<close> colours does not fail
  with status 400: the conversion of \<open>colors - 1\<close> to a float raises OverflowError on
  line 130, before the quantity is compared with the minimum on line 142.
\<close>

theorem below_minimum_overflow_counterexample:
  "find_one (service seeded) (PriceRequest.service_key tshirt_0_huge) = Some tshirt
   \<and> PriceRequest.quantity tshirt_0_huge < minimum_quantity tshirt
   \<and> calculate_price (Some seeded) tshirt_0_huge = Inl OverflowError
   \<and> calculate_price (Some seeded) tshirt_0_huge
       \<noteq> Inl (HTTPException 400 (Minimum_quantity_is (minimum_quantity tshirt)))"
proof -
  have k: "PriceRequest.service_key tshirt_0_huge = ''tshirt''" by (simp add: tshirt_0_huge_def)
  have "(2::int) ^ 1024 \<le> PriceRequest.colors tshirt_0_huge - 1" by (simp add: tshirt_0_huge_def)
  then have o: "unit_price_before_discount tshirt tshirt_0_huge = Inl OverflowError"
    by (rule unit_price_before_discount_overflow)
  have c: "calculate_price (Some seeded) tshirt_0_huge = Inl OverflowError"
    by (simp add: calculate_price_def k seeded_find_tshirt tshirt_valid o)
  have q: "PriceRequest.quantity tshirt_0_huge < minimum_quantity tshirt"
    by (simp add: tshirt_0_huge_def tshirt_def)
  show ?thesis using k c q seeded_find_tshirt by simp
qed


section \<open>Creating a quote\<close>

lemma quote_colors_convert:
  assumes "1 \<le> c" "c \<le> 10"
  shows "\<exists>n. int_to_float (max 0 (c - 1)) = Inr n"
proof -
  have "(of_int (max 0 (c - 1)) :: rat) \<le> of_int 9" using assms by simp
  also have "(of_int 9 :: rat) \<le> 2 powi 1023" by simp
  finally have "int_to_float (max 0 (c - 1)) = Inr (Fin (nearest (of_int (max 0 (c - 1)))))"
    by (intro int_to_float_finite) simp_all
  then show ?thesis by blast
qed

lemma calculate_price_below_minimum:
  assumes "find_one (service d) (PriceRequest.service_key req) = Some svc"
    and "Service_validate svc = Inr svc"
    and "int_to_float (max 0 (PriceRequest.colors req - 1)) = Inr n"
    and "PriceRequest.quantity req < minimum_quantity svc"
  shows "calculate_price (Some d) req
           = Inl (HTTPException 400 (Minimum_quantity_is (minimum_quantity svc)))"
  using assms
  by (simp add: calculate_price_def unit_price_before_discount_def color_add_def Let_def)


text \<open>
  C5.  \<open>create_quote\<close> prices the request first and writes afterwards.  Whatever error
  \<open>calculate_price\<close> raises is the outcome of \<open>create_quote\<close>, and the database is
  left as it was: so for a service key that is not in the catalog (status 404) and for
  a quantity below the minimum of the service (status 400; the colours are those of a
  validated request, 1 to 10).  When the price is computed, the request is handed to
  the store with the computed total attached, and the new identifier and that total
  are returned.  This holds whatever the insertion of the store does.
\<close>

theorem create_quote_no_partial_persistence:
  "(calculate_price db (price_request_of q) = Inl e \<longrightarrow>
        create_quote ins db q = (Inl e, db))
   \<and> (db = Some d \<and> find_one (service d) (QuoteRequest.service_key q) = None \<longrightarrow>
        create_quote ins db q = (Inl (HTTPException 404 Service_not_found), db))
   \<and> (db = Some d \<and> find_one (service d) (QuoteRequest.service_key q) = Some svc
        \<and> Service_validate svc = Inr svc
        \<and> 1 \<le> QuoteRequest.colors q \<and> QuoteRequest.colors q \<le> 10
        \<and> QuoteRequest.quantity q < minimum_quantity svc \<longrightarrow>
        create_quote ins db q
          = (Inl (HTTPException 400 (Minimum_quantity_is (minimum_quantity svc))), db))
   \<and> (db = Some d \<and> calculate_price db (price_request_of q) = Inr price \<longrightarrow>
        create_quote ins db q
          = (Inr (fst (ins d (q\<lparr>estimated_total := Some (total_price price)\<rparr>)),
                  total_price price),
             Some (snd (ins d (q\<lparr>estimated_total := Some (total_price price)\<rparr>)))))"
proof (intro conjI impI)
  assume "calculate_price db (price_request_of q) = Inl e"
  then show "create_quote ins db q = (Inl e, db)"
    by (cases db) (simp_all add: create_quote_def calculate_price_def)
next
  assume "db = Some d \<and> find_one (service d) (QuoteRequest.service_key q) = None"
  then show "create_quote ins db q = (Inl (HTTPException 404 Service_not_found), db)"
    by (simp add: create_quote_def calculate_price_def price_request_of_def)
next
  assume a: "db = Some d \<and> find_one (service d) (QuoteRequest.service_key q) = Some svc
        \<and> Service_validate svc = Inr svc
        \<and> 1 \<le> QuoteRequest.colors q \<and> QuoteRequest.colors q \<le> 10
        \<and> QuoteRequest.quantity q < minimum_quantity svc"
  then obtain n where "int_to_float (max 0 (QuoteRequest.colors q - 1)) = Inr n"
    using quote_colors_convert by blast
  with a have "calculate_price (Some d) (price_request_of q)
           = Inl (HTTPException 400 (Minimum_quantity_is (minimum_quantity svc)))"
    by (intro calculate_price_below_minimum) (simp_all add: price_request_of_def)
  with a show "create_quote ins db q
          = (Inl (HTTPException 400 (Minimum_quantity_is (minimum_quantity svc))), db)"
    by (simp add: create_quote_def)
next
  assume "db = Some d \<and> calculate_price db (price_request_of q) = Inr price"
  then have "db = Some d" "calculate_price (Some d) (price_request_of q) = Inr price"
    by auto
  then show "create_quote ins db q
          = (Inr (fst (ins d (q\<lparr>estimated_total := Some (total_price price)\<rparr>)),
                  total_price price),
             Some (snd (ins d (q\<lparr>estimated_total := Some (total_price price)\<rparr>))))"
    by (simp add: create_quote_def Let_def split_beta)
qed

lemma calculate_price_mug:
  "calculate_price (Some seeded) (price_request_of quote_mug)
     = Inl (HTTPException 404 Service_not_found)"
  by (simp add: calculate_price_def price_request_of_def quote_mug_def quote_100_3_def
        seeded_find_mug)

theorem create_quote_no_partial_persistence_witness:
  "create_quote insert_document (Some seeded) quote_mug
     = (Inl (HTTPException 404 Service_not_found), Some seeded)
   \<and> create_quote insert_document (Some by_the_dozen) quote_single
     = (Inl (HTTPException 400 (Minimum_quantity_is 12)), Some by_the_dozen)
   \<and> create_quote insert_document (Some seeded) quote_100_3
     = (Inr (0, Fin 503),
        Some (seeded\<lparr>quoterequest := [quote_100_3\<lparr>estimated_total := Some (Fin 503)\<rparr>]\<rparr>))"
proof (intro conjI)
  note t = create_quote_no_partial_persistence [where ins = insert_document]
  have k: "QuoteRequest.service_key quote_mug = ''mug''"
    by (simp add: quote_mug_def)
  show "create_quote insert_document (Some seeded) quote_mug
     = (Inl (HTTPException 404 Service_not_found), Some seeded)"
    using t [of "Some seeded" quote_mug "HTTPException 404 Service_not_found" seeded]
      calculate_price_mug seeded_find_mug k
    by simp
  have s: "QuoteRequest.service_key quote_single = ''tshirt''"
    "QuoteRequest.colors quote_single = 3" "QuoteRequest.quantity quote_single = 1"
    by (simp_all add: quote_single_def quote_100_3_def)
  show "create_quote insert_document (Some by_the_dozen) quote_single
     = (Inl (HTTPException 400 (Minimum_quantity_is 12)), Some by_the_dozen)"
    using t [of "Some by_the_dozen" quote_single _ by_the_dozen "tshirt\<lparr>minimum_quantity := 12\<rparr>"]
      dozen_find_tshirt dozen_valid s
    by simp
  have p: "calculate_price (Some seeded) (price_request_of quote_100_3) = Inr price_100_3"
    by (simp only: price_request_of_quote_100_3 price_tshirt_100_3)
  have e: "total_price price_100_3 = Fin 503" "quoterequest seeded = []"
    by (simp_all add: price_100_3_def seeded_def)
  show "create_quote insert_document (Some seeded) quote_100_3
     = (Inr (0, Fin 503),
        Some (seeded\<lparr>quoterequest := [quote_100_3\<lparr>estimated_total := Some (Fin 503)\<rparr>]\<rparr>))"
    using t [of "Some seeded" quote_100_3 _ seeded _ price_100_3] p e
    by (simp add: insert_document_def)
qed

lemma price_request_of_estimated_total:
  "price_request_of (q\<lparr>estimated_total := t\<rparr>) = price_request_of q"
  by (simp add: price_request_of_def)


lemma create_quote_100_3:
  "create_quote insert_document (Some seeded) quote_100_3
     = (Inr (0, Fin 503),
        Some (seeded\<lparr>quoterequest := [quote_100_3\<lparr>estimated_total := Some (Fin 503)\<rparr>]\<rparr>))"
proof -
  have p: "calculate_price (Some seeded) (price_request_of quote_100_3) = Inr price_100_3"
    by (simp only: price_request_of_quote_100_3 price_tshirt_100_3)
  have e: "total_price price_100_3 = Fin 503" "quoterequest seeded = []"
    by (simp_all add: price_100_3_def seeded_def)
  show ?thesis
    by (simp add: create_quote_def insert_document_def Let_def p e)
qed

text \<open>
  C8.  When \<open>create_quote\<close> succeeds, the total it returns is the total that
  \<open>calculate_price\<close> computed for the request, the document it hands to the store is
  the request with that same total as its \<open>estimated_total\<close>, and the outcome is the
  same whatever \<open>estimated_total\<close> the caller had put into the request.
\<close>

theorem create_quote_total_is_computed:
  assumes "create_quote ins db q = (Inr (doc_id, est), db')"
  shows "\<exists>d price.
           db = Some d
         \<and> calculate_price db (price_request_of q) = Inr price
         \<and> est = total_price price
         \<and> doc_id = fst (ins d (q\<lparr>estimated_total := Some est\<rparr>))
         \<and> db' = Some (snd (ins d (q\<lparr>estimated_total := Some est\<rparr>)))
         \<and> create_quote ins db (q\<lparr>estimated_total := t\<rparr>) = (Inr (doc_id, est), db')"
proof -
  from assms obtain d where d: "db = Some d"
    by (cases db) (simp_all add: create_quote_def)
  from assms d obtain price where p: "calculate_price db (price_request_of q) = Inr price"
    by (cases "calculate_price db (price_request_of q)") (simp_all add: create_quote_def)
  from assms d p have r: "est = total_price price"
    "doc_id = fst (ins d (q\<lparr>estimated_total := Some est\<rparr>))"
    "db' = Some (snd (ins d (q\<lparr>estimated_total := Some est\<rparr>)))"
    by (auto simp add: create_quote_def Let_def split_beta)
  have "create_quote ins db (q\<lparr>estimated_total := t\<rparr>) = (Inr (doc_id, est), db')"
    using d p r
    by (simp add: create_quote_def Let_def split_beta price_request_of_estimated_total)
  with d p r show ?thesis by blast
qed

theorem create_quote_total_is_computed_witness:
  "create_quote insert_document (Some seeded) quote_100_3
     = (Inr (0, Fin 503),
        Some (seeded\<lparr>quoterequest := [quote_100_3\<lparr>estimated_total := Some (Fin 503)\<rparr>]\<rparr>))
   \<and> estimated_total quote_100_3 = Some (Fin 1)
   \<and> calculate_price (Some seeded) (price_request_of quote_100_3) = Inr price_100_3
   \<and> total_price price_100_3 = Fin 503
   \<and> create_quote insert_document (Some seeded) (quote_100_3\<lparr>estimated_total := None\<rparr>)
     = (Inr (0, Fin 503),
        Some (seeded\<lparr>quoterequest := [quote_100_3\<lparr>estimated_total := Some (Fin 503)\<rparr>]\<rparr>))"
proof -
  from create_quote_total_is_computed [OF create_quote_100_3, of None]
  have "create_quote insert_document (Some seeded) (quote_100_3\<lparr>estimated_total := None\<rparr>)
     = (Inr (0, Fin 503),
        Some (seeded\<lparr>quoterequest := [quote_100_3\<lparr>estimated_total := Some (Fin 503)\<rparr>]\<rparr>))"
    by blast
  moreover have "estimated_total quote_100_3 = Some (Fin 1)" by (simp add: quote_100_3_def)
  moreover have "calculate_price (Some seeded) (price_request_of quote_100_3) = Inr price_100_3"
    by (simp only: price_request_of_quote_100_3 price_tshirt_100_3)
  moreover have "total_price price_100_3 = Fin 503" by (simp add: price_100_3_def)
  ultimately show ?thesis using create_quote_100_3 by blast
qed




section \<open>The number of colours\<close>

lemma color_add_clamped:
  assumes "PriceRequest.colors req \<le> 1"
  shows "color_add svc req = Inr (fmul (Fin 0) (color_price_per_color svc))"
proof -
  have "max 0 (PriceRequest.colors req - 1) = 0" using assms by simp
  then show ?thesis by (simp add: color_add_def int_to_float_def rd_0)
qed

lemma calculate_price_colors_below_one:
  assumes "PriceRequest.colors req \<le> 1"
  shows "calculate_price db req =
           map_sum id (\<lambda>r. r\<lparr>breakdown := (breakdown r)\<lparr>Breakdown.colors := PriceRequest.colors req\<rparr>\<rparr>)
             (calculate_price db (req\<lparr>PriceRequest.colors := 1\<rparr>))"
proof -
  have 1: "color_add svc (req\<lparr>PriceRequest.colors := 1\<rparr>) = color_add svc req" for svc
    using assms by (simp add: color_add_clamped)
  have 2: "area_mult svc (req\<lparr>PriceRequest.colors := 1\<rparr>) = area_mult svc req" for svc
    by (simp add: area_mult_def)
  have 3: "unit_price_before_discount svc (req\<lparr>PriceRequest.colors := 1\<rparr>)
             = unit_price_before_discount svc req" for svc
    by (simp add: unit_price_before_discount_def 1 2 split: sum.splits)
  show ?thesis
    by (simp add: calculate_price_def 2 3 Let_def split: option.splits sum.splits)
qed


text \<open>
  C10.  A request whose number of colours is 1 or less (zero and negative numbers
  included) is priced as the same request with one colour: \<open>calculate_price\<close> raises
  the same error if that one raises, and otherwise returns the same unit price, the
  same total price and the same prices in the breakdown, the \<open>colors\<close> entry of the
  breakdown repeating the number that was sent.
\<close>

theorem colors_below_one_like_one:
  assumes "PriceRequest.colors req \<le> 1"
  shows "(\<forall>e. calculate_price db req = Inl e
              \<longleftrightarrow> calculate_price db (req\<lparr>PriceRequest.colors := 1\<rparr>) = Inl e)
       \<and> (\<forall>r1. calculate_price db (req\<lparr>PriceRequest.colors := 1\<rparr>) = Inr r1 \<longrightarrow>
             (\<exists>r. calculate_price db req = Inr r
                \<and> unit_price r = unit_price r1
                \<and> total_price r = total_price r1
                \<and> base (breakdown r) = base (breakdown r1)
                \<and> color_add_per_unit (breakdown r) = color_add_per_unit (breakdown r1)
                \<and> area_multiplier (breakdown r) = area_multiplier (breakdown r1)
                \<and> Breakdown.colors (breakdown r) = PriceRequest.colors req))"
proof -
  let ?c1 = "calculate_price db (req\<lparr>PriceRequest.colors := 1\<rparr>)"
  note eq = calculate_price_colors_below_one [OF assms, of db]
  show ?thesis
  proof (cases ?c1)
    case (Inl e)
    with eq show ?thesis by simp
  next
    case (Inr r1)
    from calculate_price_Inr [OF Inr] have "Breakdown.colors (breakdown r1) = 1" by auto
    with eq Inr show ?thesis by simp
  qed
qed


theorem colors_below_one_like_one_witness:
  "PriceRequest.colors tshirt_100_minus2 \<le> 1
   \<and> calculate_price (Some seeded) (tshirt_100_minus2\<lparr>PriceRequest.colors := 1\<rparr>) = Inr price_100_1
   \<and> (\<exists>r. calculate_price (Some seeded) tshirt_100_minus2 = Inr r
          \<and> unit_price r = Fin (9 / 2) \<and> total_price r = Fin 450
          \<and> Breakdown.colors (breakdown r) = - 2)"
proof -
  have c: "PriceRequest.colors tshirt_100_minus2 \<le> 1" "PriceRequest.colors tshirt_100_minus2 = - 2"
    by (simp_all add: tshirt_100_minus2_def)
  have p: "calculate_price (Some seeded) (tshirt_100_minus2\<lparr>PriceRequest.colors := 1\<rparr>) = Inr price_100_1"
    by (simp only: tshirt_100_minus2_to_1 price_tshirt_100_1)
  have v: "unit_price price_100_1 = Fin (9 / 2)" "total_price price_100_1 = Fin 450"
    by (simp_all add: price_100_1_def)
  from colors_below_one_like_one [OF c(1), of "Some seeded"] p
  obtain r where "calculate_price (Some seeded) tshirt_100_minus2 = Inr r"
    "unit_price r = unit_price price_100_1" "total_price r = total_price price_100_1"
    "Breakdown.colors (breakdown r) = PriceRequest.colors tshirt_100_minus2"
    by blast
  with c p v show ?thesis by auto
qed

section \<open>The worked example\<close>

text \<open>
  C6.  For the t-shirt service (base price 6.0, 0.35 per extra colour, area multiplier
  1.0), a hundred items in three colours on a medium area: the colour add-on is the
  float 0.7 and the price before discount the float 6.7.  The product \<open>6.7 * 0.75\<close> is
  the float nearest to 5.025, which lies strictly above 5.025, so the second rounding
  gives 5.03 and not 5.02 (and would do so under round-half-even and round-half-up
  alike, the value being no tie).  The total is \<open>5.03 * 100 = 503.0\<close>.
\<close>

theorem tshirt_hundred_three_colours:
  "color_add tshirt tshirt_100_3 = Inr (rd (7 / 10))
   \<and> unit_price_before_discount tshirt tshirt_100_3 = Inr (rd (67 / 10))
   \<and> volume_discount 100 (rd (67 / 10)) = rd (5025 / 1000)
   \<and> rd (5025 / 1000) = Fin (2828823515942093 / 562949953421312)
   \<and> (5025 / 1000 :: rat) < 2828823515942093 / 562949953421312
   \<and> calculate_price (Some seeded) tshirt_100_3 = Inr price_100_3
   \<and> unit_price price_100_3 = rd (503 / 100)
   \<and> rd (503 / 100) \<noteq> rd (502 / 100)
   \<and> total_price price_100_3 = fmul (unit_price price_100_3) (Fin 100)
   \<and> total_price price_100_3 = Fin 503"
proof (intro conjI)
  show "(5025 / 1000 :: rat) < 2828823515942093 / 562949953421312" by simp
  show "unit_price price_100_3 = rd (503 / 100)"
    by (simp only: price_100_3_def PriceResponse.select_convs)
  show "total_price price_100_3 = Fin 503"
    by (simp only: price_100_3_def PriceResponse.select_convs)
  show "total_price price_100_3 = fmul (unit_price price_100_3) (Fin 100)"
    by (simp only: price_100_3_def PriceResponse.select_convs times_100)
qed (rule color_add_100_3 before_discount_100_3 volume_discount_100_3 rd_5025
      price_tshirt_100_3 rd_503_not_502)+

section \<open>Monotonicity in the number of colours\<close>

lemma Service_validate_prices:
  assumes "Service_validate svc = Inr svc"
    and "isfinite (color_price_per_color svc)"
    and "isfinite (print_area_multiplier svc)"
  shows "nonneg (base_price svc)
       \<and> (\<exists>k m. color_price_per_color svc = Fin k \<and> 0 \<le> k
               \<and> print_area_multiplier svc = Fin m \<and> 0 < m)"
proof -
  from assms(2,3) obtain k m where
    f: "color_price_per_color svc = Fin k" "print_area_multiplier svc = Fin m"
    by (cases "color_price_per_color svc"; cases "print_area_multiplier svc") simp_all
  from assms(1) have v: "fge (base_price svc) (Fin 0)" "fge (color_price_per_color svc) (Fin 0)"
    "fge (print_area_multiplier svc) (rd (1 / 10))"
    by (simp_all add: Service_validate_def split: if_splits)
  from v(1) have b: "nonneg (base_price svc)"
    by (cases "base_price svc") (simp_all add: fge_def)
  from v(2,3) f have "0 \<le> k" "0 < m"
    by (simp_all add: fge_def rd_tenth)
  with f b show ?thesis by blast
qed

lemma area_mult_pos:
  assumes "print_area_multiplier svc = Fin m" "0 < m"
  shows "\<exists>a. area_mult svc req = Fin a \<and> 0 < a"
proof -
  have "area_mult svc req = Fin (8106479329266893 / 9007199254740992)
      \<or> area_mult svc req = Fin 1 \<or> area_mult svc req = Fin m"
    using assms(1) by (simp add: area_mult_def area_multiplier_map_def rd_1 rd_nine_tenths)
  moreover have "(0::rat) < 8106479329266893 / 9007199254740992" by simp
  ultimately show ?thesis using assms(2) by (metis zero_less_one)
qed

lemma area_mult_colors: "area_mult svc (req\<lparr>PriceRequest.colors := c\<rparr>) = area_mult svc req"
  by (simp add: area_mult_def)


text \<open>
  C7, as the code has it.  For a service that passes the validation of its fields and
  whose price per extra colour and area multiplier are finite, and two requests that
  differ in the number of colours only, both of which have a price before discount: the
  request with more colours has a price before discount that is greater than or equal
  to the other (Python's \<^verbatim>\<open><=\<close> on floats).
\<close>

theorem unit_price_before_discount_mono:
  assumes "Service_validate svc = Inr svc"
    and "isfinite (color_price_per_color svc)"
    and "isfinite (print_area_multiplier svc)"
    and "PriceRequest.colors req \<le> c'"
    and "unit_price_before_discount svc req = Inr p"
    and "unit_price_before_discount svc (req\<lparr>PriceRequest.colors := c'\<rparr>) = Inr p'"
  shows "fle p p'"
proof -
  from Service_validate_prices [OF assms(1-3)] obtain k m where
    s: "nonneg (base_price svc)" "color_price_per_color svc = Fin k" "0 \<le> k"
       "print_area_multiplier svc = Fin m" "0 < m"
    by blast
  from area_mult_pos [OF s(4,5)] obtain a where a: "area_mult svc req = Fin a" "0 < a" by blast
  define B where "B = base_price svc"
  define i where "i = max 0 (PriceRequest.colors req - 1)"
  define i' where "i' = max 0 (c' - 1)"
  have B: "nonneg B" using s(1) by (simp add: B_def)
  have i: "0 \<le> i" "i \<le> i'" using assms(4) by (simp_all add: i_def i'_def)
  from assms(5) obtain n where n: "int_to_float i = Inr n"
    "p = py_round (fmul (fadd B (fmul n (Fin k))) (Fin a)) 2"
    by (auto simp add: unit_price_before_discount_def color_add_def s a i_def B_def
          split: sum.splits)
  from assms(6) obtain n' where n': "int_to_float i' = Inr n'"
    "p' = py_round (fmul (fadd B (fmul n' (Fin k))) (Fin a)) 2"
    by (auto simp add: unit_price_before_discount_def color_add_def s a i'_def B_def
          area_mult_colors split: sum.splits)
  have x: "n = Fin (nearest (of_int i))" using int_to_float_Inr [OF i(1) n(1)] by simp
  have x': "n' = Fin (nearest (of_int i'))" using int_to_float_Inr [OF _ n'(1)] i by simp
  have x0: "0 \<le> nearest (of_int i)" using i(1) by (intro nearest_nonneg) simp
  have xx: "nearest (of_int i) \<le> nearest (of_int i' :: rat)" using i by (intro nearest_mono) simp_all
  have x0': "0 \<le> nearest (of_int i' :: rat)" using x0 xx by simp
  have m1: "fle (fmul n (Fin k)) (fmul n' (Fin k))"
    unfolding x x' using x0 xx s(3) by (rule fmul_Fin_mono)
  have n1: "nonneg (fmul n (Fin k))" unfolding x using x0 s(3) by (rule fmul_Fin_nonneg)
  have n1': "nonneg (fmul n' (Fin k))" unfolding x' using x0' s(3) by (rule fmul_Fin_nonneg)
  have m2: "fle (fadd B (fmul n (Fin k))) (fadd B (fmul n' (Fin k)))"
    using B n1 n1' m1 by (rule fadd_mono)
  have n2: "nonneg (fadd B (fmul n (Fin k)))" using B n1 by (rule fadd_nonneg)
  have n2': "nonneg (fadd B (fmul n' (Fin k)))" using B n1' by (rule fadd_nonneg)
  have m3: "fle (fmul (fadd B (fmul n (Fin k))) (Fin a)) (fmul (fadd B (fmul n' (Fin k))) (Fin a))"
    using n2 n2' m2 a(2) by (rule fmul_mono)
  have n3: "nonneg (fmul (fadd B (fmul n (Fin k))) (Fin a))" using n2 a(2) by (rule fmul_nonneg)
  have n3': "nonneg (fmul (fadd B (fmul n' (Fin k))) (Fin a))" using n2' a(2) by (rule fmul_nonneg)
  show ?thesis unfolding n(2) n'(2) using n3 n3' m3 by (rule py_round_mono)
qed

theorem unit_price_before_discount_mono_witness:
  "Service_validate tshirt = Inr tshirt
   \<and> isfinite (color_price_per_color tshirt)
   \<and> isfinite (print_area_multiplier tshirt)
   \<and> PriceRequest.colors tshirt_100_1 \<le> 3
   \<and> unit_price_before_discount tshirt tshirt_100_1 = Inr (Fin 6)
   \<and> unit_price_before_discount tshirt (tshirt_100_1\<lparr>PriceRequest.colors := 3\<rparr>) = Inr (rd (67 / 10))
   \<and> fle (Fin 6) (rd (67 / 10))"
proof -
  have c: "PriceRequest.colors tshirt_100_1 \<le> 3" by (simp add: tshirt_100_1_fields)
  have p: "unit_price_before_discount tshirt (tshirt_100_1\<lparr>PriceRequest.colors := 3\<rparr>) = Inr (rd (67 / 10))"
    by (simp only: tshirt_100_1_to_3 before_discount_100_3)
  from unit_price_before_discount_mono
         [OF tshirt_valid tshirt_finite(2,3) c before_discount_100_1 p]
  have "fle (Fin 6) (rd (67 / 10))" .
  with tshirt_valid tshirt_finite(2,3) c before_discount_100_1 p show ?thesis by blast
qed

lemma tshirt_inf_valid: "Service_validate tshirt_inf = Inr tshirt_inf"
proof -
  have "fge (base_price tshirt) (Fin 0) \<and> fge (print_area_multiplier tshirt) (rd (1 / 10))
      \<and> 1 \<le> minimum_quantity tshirt"
    using tshirt_valid by (simp add: Service_validate_def split: if_splits)
  then show ?thesis by (simp add: Service_validate_def tshirt_inf_def fge_def)
qed

lemma before_discount_inf_1: "unit_price_before_discount tshirt_inf tshirt_100_1 = Inr NaN"
  by (simp add: unit_price_before_discount_def color_add_def tshirt_inf_def
        tshirt_100_1_fields int_to_float_0 tshirt_fields area_mult_medium)

lemma before_discount_inf_3: "unit_price_before_discount tshirt_inf tshirt_100_3 = Inr PInf"
  by (simp add: unit_price_before_discount_def color_add_def tshirt_inf_def
        tshirt_100_3_fields int_to_float_2 tshirt_fields area_mult_medium)

text \<open>
  C7, as the spec has it, fails.  A service whose price per extra colour is infinite
  passes the validation of its fields.  With one colour its price before discount is
  NaN (\<open>0 * inf\<close>), with three colours it is \<open>inf\<close>, and \<^verbatim>\<open>nan <= inf\<close> is false: the request
  with more colours does not have a price greater than or equal to the other.
\<close>

theorem infinite_colour_price_counterexample:
  "Service_validate tshirt_inf = Inr tshirt_inf
   \<and> tshirt_100_1\<lparr>PriceRequest.colors := 3\<rparr> = tshirt_100_3
   \<and> PriceRequest.colors tshirt_100_1 \<le> PriceRequest.colors tshirt_100_3
   \<and> unit_price_before_discount tshirt_inf tshirt_100_1 = Inr NaN
   \<and> unit_price_before_discount tshirt_inf tshirt_100_3 = Inr PInf
   \<and> \<not> fle NaN PInf"
  using tshirt_inf_valid tshirt_100_1_to_3 before_discount_inf_1 before_discount_inf_3
  by (simp add: tshirt_100_1_fields tshirt_100_3_fields)

end
